theory Spec2Isabelle
  imports Main "HOL-Library.Word"
begin

unbundle bit_operations_syntax

section \<open>The arena allocator of the JIT (src/jit/alloc.h)\<close>

text \<open>
  The model is for a 64-bit target: \<open>size_t\<close> and every pointer (\<open>BYTE*\<close>,
  \<open>void*\<close>, \<open>PageDescriptor*\<close>) is a 64-bit word, \<open>nullptr\<close> is 0, and pointer
  arithmetic is the arithmetic of the machine, which wraps around.
\<close>

type_synonym size_t = "64 word"
type_synonym ptr = "64 word"
type_synonym byte = "8 word"

subsection \<open>Data\<close>

text \<open>
  \<open>struct PageDescriptor\<close>: two links and two sizes. The flexible array member
  \<open>m_contents\<close> is the storage that follows the header in memory; it begins
  \<open>sizeof(PageDescriptor)\<close> bytes after the page's own address.
\<close>

record PageDescriptor =
  m_next :: ptr
  m_previous :: ptr
  m_pageBytes :: size_t
  m_usedBytes :: size_t

definition sizeof_size_t :: size_t where
  "sizeof_size_t = 8"

definition sizeof_PageDescriptor :: size_t where
  "sizeof_PageDescriptor = 4 * sizeof_size_t"

definition m_contents :: "ptr \<Rightarrow> ptr" where
  "m_contents page = page + sizeof_PageDescriptor"

text \<open>
  Modelled from the spec: \<open>OS_page_size\<close>, a constant of the platform that alloc.h uses
  and does not declare. The spec's scenario takes platform pages of 4096 bytes.
\<close>

definition OS_page_size :: size_t where
  "OS_page_size = 4096"

definition DEFAULT_PAGE_SIZE :: size_t where
  "DEFAULT_PAGE_SIZE = 16 * OS_page_size"

definition MIN_PAGE_SIZE :: size_t where
  "MIN_PAGE_SIZE = sizeof_PageDescriptor"

text \<open>
  \<open>class ArenaAllocator\<close>: the five fields of the object. The state of a run extends it
  with what the allocator reads and writes outside the object: the page descriptors it
  owns (a store from addresses to descriptors), the bytes of memory that \<open>memset\<close>
  stamps, and the blocks of the process heap that are live (the fault-injection probe
  allocates and frees one).
\<close>

record ArenaAllocator =
  m_memoryManager :: ptr
  m_firstPage :: ptr
  m_lastPage :: ptr
  m_nextFreeByte :: ptr
  m_lastFreeByte :: ptr

record state = ArenaAllocator +
  pages :: "ptr \<rightharpoonup> PageDescriptor"
  memory :: "ptr \<Rightarrow> byte"
  processHeap :: "ptr list"

text \<open>
  What the code takes from outside alloc.h, as parameters of a call: the build
  (\<open>DEBUG\<close>, and whether the \<open>assert\<close> macro of host.h is active), the static
  \<open>s_defaultPageSize\<close>, the configuration value \<open>JitConfig.ShouldInjectFault()\<close>, the
  byte \<open>UninitializedWord<char>(nullptr)\<close>, and the answers of the two external
  allocators: \<open>ClrAllocInProcessHeap\<close> and the backing store behind
  \<open>allocateHostMemory\<close>, each a function of the requested size that returns the block
  or \<open>nullptr\<close>.
\<close>

record env =
  DEBUG :: bool
  assertsActive :: bool
  s_defaultPageSize :: size_t
  ShouldInjectFault :: int
  UninitializedWord :: byte
  ClrAllocInProcessHeap :: "size_t \<Rightarrow> ptr"
  allocateHostMemory :: "size_t \<Rightarrow> ptr"

datatype error = NOMEM | AssertionFailed

type_synonym 'a result = "(error + 'a) \<times> state"

subsection \<open>Helpers that alloc.h calls and does not define\<close>

text \<open>
  Modelled from the spec: \<open>roundUp\<close> (declared elsewhere in the JIT). The spec: "Rounds
  size up to the native pointer-width granularity". The result is a \<open>size_t\<close>, so the
  sum is the machine's.
\<close>

definition roundUp :: "size_t \<Rightarrow> size_t \<Rightarrow> size_t" where
  "roundUp sz mult = (sz + (mult - 1)) div mult * mult"

text \<open>
  Modelled from the spec: \<open>isInitialized\<close> (alloc.cpp). The spec: the arena is
  initialized when it is "constructed, not yet destroyed", and its backing store is "set
  at construction ... until destroy() resets it".
\<close>

definition isInitialized :: "state \<Rightarrow> bool" where
  "isInitialized s = (m_memoryManager s \<noteq> 0)"

text \<open>
  \<open>memset(dst, c, n)\<close>: the \<open>n\<close> bytes from \<open>dst\<close> on become \<open>c\<close>. Memory is total
  here: a write to an address that is not mapped, which ends the program, is not
  modelled, so what is stated of a diagnostic build is stated of calls that return.
\<close>

definition memset :: "ptr \<Rightarrow> byte \<Rightarrow> size_t \<Rightarrow> (ptr \<Rightarrow> byte) \<Rightarrow> (ptr \<Rightarrow> byte)" where
  "memset dst c n m = (\<lambda>a. if a - dst < n then c else m a)"

text \<open>\<open>ClrFreeInProcessHeap(0, p)\<close>: the block is no longer live.\<close>

definition ClrFreeInProcessHeap :: "ptr \<Rightarrow> state \<Rightarrow> state" where
  "ClrFreeInProcessHeap p s = s\<lparr>processHeap := remove1 p (processHeap s)\<rparr>"

definition updatePage :: "ptr \<Rightarrow> (PageDescriptor \<Rightarrow> PageDescriptor) \<Rightarrow> state \<Rightarrow> state" where
  "updatePage p f s =
     (case pages s p of
        None \<Rightarrow> s
      | Some pd \<Rightarrow> s\<lparr>pages := (pages s)(p \<mapsto> f pd)\<rparr>)"

subsection \<open>Page growth\<close>

text \<open>
  Modelled from the spec: the step that \<open>allocateNewPage\<close> and \<open>getTotalBytesUsed\<close>
  (both in alloc.cpp) share: the bytes consumed in the active page, "cursor - pageStart",
  are written into its \<open>m_usedBytes\<close>. The field comment in alloc.h says the value "is
  only valid when we've allocated a new page".
\<close>

definition recordUsedBytes :: "state \<Rightarrow> state" where
  "recordUsedBytes s =
     (if m_lastPage s \<noteq> 0
      then updatePage (m_lastPage s)
             (\<lambda>pd. pd\<lparr>m_usedBytes := m_nextFreeByte s - m_contents (m_lastPage s)\<rparr>) s
      else s)"

definition newPageSize :: "env \<Rightarrow> size_t \<Rightarrow> size_t" where
  "newPageSize e sz = max (s_defaultPageSize e) (sz + sizeof_PageDescriptor)"

text \<open>
  Modelled from the spec: \<open>allocateNewPage\<close> (alloc.cpp; alloc.h only declares it).
  The steps are those of the spec's section 4.2, in its order.
  \<^item> alloc.h has already added \<open>sz\<close> to \<open>m_nextFreeByte\<close> when it calls; the spec's
    cursor is the one before the request, so the addition is taken back first.
  \<^item> "records the outgoing page's highWaterMarkBytes = cursor - pageStart".
  \<^item> "Chooses the new page's capacity as max(defaultPageSize, size +
    pageHeaderOverhead)"; the header overhead is \<open>sizeof(PageDescriptor)\<close>.
  \<^item> "Requests raw storage of that capacity from the backing-store adapter"; on failure
    a fail-fast caller (\<open>canThrow\<close>) gets the out-of-memory condition, a fail-soft one
    a null result.
  \<^item> "on success, links the new page as lastPage, updates cursor/limit to its usable
    window ... and returns the carved block": the block is the start of the page's
    contents, the window ends where the storage obtained ends.
\<close>

definition linkNewPage :: "ptr \<Rightarrow> size_t \<Rightarrow> size_t \<Rightarrow> state \<Rightarrow> state" where
  "linkNewPage newPage pageSize sz s =
     (let s1 = s\<lparr>pages := (pages s)(newPage \<mapsto>
                  \<lparr>m_next = 0, m_previous = m_lastPage s,
                   m_pageBytes = pageSize, m_usedBytes = 0\<rparr>)\<rparr>;
          s2 = (if m_lastPage s1 \<noteq> 0
                then updatePage (m_lastPage s1) (\<lambda>pd. pd\<lparr>m_next := newPage\<rparr>) s1
                else s1\<lparr>m_firstPage := newPage\<rparr>)
      in s2\<lparr>m_lastPage := newPage,
             m_nextFreeByte := m_contents newPage + sz,
             m_lastFreeByte := newPage + pageSize\<rparr>)"

definition allocateNewPage :: "env \<Rightarrow> size_t \<Rightarrow> bool \<Rightarrow> state \<Rightarrow> ptr result" where
  "allocateNewPage e sz canThrow s =
     (let s1 = s\<lparr>m_nextFreeByte := m_nextFreeByte s - sz\<rparr>;
          s2 = recordUsedBytes s1;
          pageSize = newPageSize e sz;
          newPage = allocateHostMemory e pageSize
      in if newPage = 0
         then (if canThrow then (Inl NOMEM, s2) else (Inr 0, s2))
         else (Inr (m_contents newPage), linkNewPage newPage pageSize sz s2))"

subsection \<open>\<open>ArenaAllocator::allocateMemory\<close> (alloc.h, lines 100 to 138)\<close>

text \<open>
  The two \<open>assert\<close>s: where the macro is active a failed assertion ends the call,
  where it is not the call goes on.
\<close>

definition assertsHold :: "env \<Rightarrow> size_t \<Rightarrow> state \<Rightarrow> bool" where
  "assertsHold e sz s = (if assertsActive e then isInitialized s \<and> sz \<noteq> 0 else True)"

text \<open>
  Lines 108 to 123, \<open>DEBUG\<close> only: with fault injection configured, one byte is
  allocated from the process heap; the block is freed again, or \<open>NOMEM()\<close> throws.
\<close>

definition injectFault :: "env \<Rightarrow> state \<Rightarrow> unit result" where
  "injectFault e s =
     (if DEBUG e \<and> ShouldInjectFault e \<noteq> 0
      then (let p = ClrAllocInProcessHeap e 1
            in if p \<noteq> 0
               then (Inr (), ClrFreeInProcessHeap p (s\<lparr>processHeap := p # processHeap s\<rparr>))
               else (Inl NOMEM, s))
      else (Inr (), s))"

text \<open>Lines 133 to 135, \<open>DEBUG\<close> only: the block is filled with the pattern.\<close>

definition stampBlock :: "env \<Rightarrow> ptr \<Rightarrow> size_t \<Rightarrow> state \<Rightarrow> state" where
  "stampBlock e block sz s =
     (if DEBUG e then s\<lparr>memory := memset block (UninitializedWord e) sz (memory s)\<rparr> else s)"

text \<open>
  Lines 125 to 131: the cursor is advanced first and compared with the end of the
  window afterwards; page growth is always asked for with \<open>canThrow = true\<close>.
\<close>

definition bump :: "env \<Rightarrow> size_t \<Rightarrow> state \<Rightarrow> ptr result" where
  "bump e sz s =
     (let block = m_nextFreeByte s;
          s1 = s\<lparr>m_nextFreeByte := m_nextFreeByte s + sz\<rparr>
      in if m_nextFreeByte s1 > m_lastFreeByte s1
         then allocateNewPage e sz True s1
         else (Inr block, s1))"

definition allocateMemory :: "env \<Rightarrow> size_t \<Rightarrow> state \<Rightarrow> ptr result" where
  "allocateMemory e size0 s =
     (if \<not> assertsHold e size0 s then (Inl AssertionFailed, s)
      else
        let sz = roundUp size0 sizeof_size_t in
        case injectFault e s of
          (Inl err, s1) \<Rightarrow> (Inl err, s1)
        | (Inr _, s1) \<Rightarrow>
            (case bump e sz s1 of
               (Inl err, s2) \<Rightarrow> (Inl err, s2)
             | (Inr block, s2) \<Rightarrow> (Inr block, stampBlock e block sz s2)))"

subsection \<open>A constructed arena and two builds, for concrete runs\<close>

text \<open>
  Modelled from the spec: the constructor \<open>ArenaAllocator(IEEMemoryManager*)\<close>
  (alloc.cpp). The spec: the backing store is "set at construction", the cursor and the
  limit "are null when uninitialized", and "firstPage == null iff the arena has
  allocated nothing yet". The arena is constructed in a world that holds no page of its
  own yet.
\<close>

definition ArenaAllocator_new :: "ptr \<Rightarrow> state" where
  "ArenaAllocator_new memoryManager =
     \<lparr>m_memoryManager = memoryManager, m_firstPage = 0, m_lastPage = 0,
      m_nextFreeByte = 0, m_lastFreeByte = 0,
      pages = Map.empty, memory = (\<lambda>_. 0), processHeap = []\<rparr>"

text \<open>
  A release build and a diagnostic build with fault injection configured. In both the
  default page size is the compile-time default, and the backing store answers every
  request with the block at \<open>0x10000\<close>.
\<close>

definition releaseBuild :: env where
  "releaseBuild =
     \<lparr>DEBUG = False, assertsActive = False, s_defaultPageSize = DEFAULT_PAGE_SIZE,
      ShouldInjectFault = 0, UninitializedWord = 0xDD,
      ClrAllocInProcessHeap = (\<lambda>_. 0x500), allocateHostMemory = (\<lambda>_. 0x10000)\<rparr>"

definition debugBuild :: env where
  "debugBuild =
     \<lparr>DEBUG = True, assertsActive = True, s_defaultPageSize = DEFAULT_PAGE_SIZE,
      ShouldInjectFault = 1, UninitializedWord = 0xDD,
      ClrAllocInProcessHeap = (\<lambda>_. 0x500), allocateHostMemory = (\<lambda>_. 0x10000)\<rparr>"

text \<open>An arena with one page of the default size at \<open>0x10000\<close>, 8 bytes of it used.\<close>

definition onePage :: state where
  "onePage =
     \<lparr>m_memoryManager = 0x100, m_firstPage = 0x10000, m_lastPage = 0x10000,
      m_nextFreeByte = 0x10028, m_lastFreeByte = 0x20000,
      pages = [0x10000 \<mapsto> \<lparr>m_next = 0, m_previous = 0,
                              m_pageBytes = 0x10000, m_usedBytes = 0\<rparr>],
      memory = (\<lambda>_. 0), processHeap = []\<rparr>"

subsection \<open>Predicates of the statements\<close>

text \<open>
  The probe of lines 113 to 121 fails: the build is a diagnostic one, fault injection is
  configured, and the process heap has no byte to give.
\<close>

definition faultFires :: "env \<Rightarrow> bool" where
  "faultFires e = (DEBUG e \<and> ShouldInjectFault e \<noteq> 0 \<and> ClrAllocInProcessHeap e 1 = 0)"

text \<open>An address is a multiple of the pointer width.\<close>

definition isAligned :: "ptr \<Rightarrow> bool" where
  "isAligned p = (unat p mod unat sizeof_size_t = 0)"

text \<open>
  The comment of lines 46 to 48: "These two pointers (when non-null) will always point
  into 'm_lastPage'". With both pointers non-null, the active page exists and
  \<open>m_contents \<le> m_nextFreeByte \<le> m_lastFreeByte \<le> m_contents + m_pageBytes\<close>, the
  addresses read as numbers.
\<close>

definition windowInLastPage :: "state \<Rightarrow> bool" where
  "windowInLastPage s =
     (if m_nextFreeByte s = 0 \<or> m_lastFreeByte s = 0 then True
      else case pages s (m_lastPage s) of
             None \<Rightarrow> False
           | Some pd \<Rightarrow>
               unat (m_lastPage s) + unat sizeof_PageDescriptor \<le> unat (m_nextFreeByte s) \<and>
               unat (m_nextFreeByte s) \<le> unat (m_lastFreeByte s) \<and>
               unat (m_lastFreeByte s)
                 \<le> unat (m_lastPage s) + unat sizeof_PageDescriptor + unat (m_pageBytes pd))"

text \<open>What makes a descriptor a member of the chain: its links and its capacity.\<close>

definition pageLinks :: "PageDescriptor \<Rightarrow> ptr \<times> ptr \<times> size_t" where
  "pageLinks pd = (m_next pd, m_previous pd, m_pageBytes pd)"

text \<open>
  Modelled from the spec: \<open>getTotalBytesAllocated\<close> and \<open>getTotalBytesUsed\<close> (alloc.cpp;
  alloc.h only declares them). The spec: "allocated" counts full page capacities ever
  created, "used" counts actually-consumed bytes including the live page's current
  high-water mark (cursor - pageStart). Both walk the chain from \<open>m_firstPage\<close> along
  \<open>m_next\<close>; the walk is bounded by a number of steps, and gives \<open>None\<close> when it has not
  reached the end of the chain by then or meets an address that holds no page.
\<close>

fun sumPages ::
  "(PageDescriptor \<Rightarrow> size_t) \<Rightarrow> (ptr \<rightharpoonup> PageDescriptor) \<Rightarrow> nat \<Rightarrow> ptr \<Rightarrow> size_t option"
where
  "sumPages f h 0 p = (if p = 0 then Some 0 else None)"
| "sumPages f h (Suc n) p =
     (if p = 0 then Some 0
      else case h p of
             None \<Rightarrow> None
           | Some pd \<Rightarrow> map_option (\<lambda>t. f pd + t) (sumPages f h n (m_next pd)))"

definition getTotalBytesAllocated :: "nat \<Rightarrow> state \<Rightarrow> size_t option" where
  "getTotalBytesAllocated n s = sumPages m_pageBytes (pages s) n (m_firstPage s)"

definition getTotalBytesUsed :: "nat \<Rightarrow> state \<Rightarrow> size_t option" where
  "getTotalBytesUsed n s =
     (let s1 = recordUsedBytes s in sumPages m_usedBytes (pages s1) n (m_firstPage s1))"

text \<open>
  A sequence of requests on one arena, each with the build and the answers of the
  outside world it meets; a request that fails leaves the state the failed call left.
\<close>

fun allocateAll :: "(env \<times> size_t) list \<Rightarrow> state \<Rightarrow> state" where
  "allocateAll [] s = s"
| "allocateAll ((e, size0) # rs) s = allocateAll rs (snd (allocateMemory e size0 s))"

section \<open>Properties\<close>

subsection \<open>The steps of the model\<close>

lemmas run_defs =
  allocateMemory_def bump_def allocateNewPage_def linkNewPage_def recordUsedBytes_def
  updatePage_def newPageSize_def assertsHold_def isInitialized_def injectFault_def
  ClrFreeInProcessHeap_def stampBlock_def roundUp_def m_contents_def sizeof_size_t_def
  sizeof_PageDescriptor_def DEFAULT_PAGE_SIZE_def OS_page_size_def Let_def
  releaseBuild_def debugBuild_def ArenaAllocator_new_def onePage_def

lemma unat_plus_no_wrap:
  "unat (a :: 64 word) + unat b < 2 ^ 64 \<Longrightarrow> unat (a + b) = unat a + unat b"
  using unat_add_lem [of a b] by simp


lemma injectFault_eq:
  "injectFault e s = (if faultFires e then (Inl NOMEM, s) else (Inr (), s))"
  by (simp add: injectFault_def faultFires_def ClrFreeInProcessHeap_def Let_def)

lemma updatePage_fields [simp]:
  "m_memoryManager (updatePage p f s) = m_memoryManager s"
  "m_firstPage (updatePage p f s) = m_firstPage s"
  "m_lastPage (updatePage p f s) = m_lastPage s"
  "m_nextFreeByte (updatePage p f s) = m_nextFreeByte s"
  "m_lastFreeByte (updatePage p f s) = m_lastFreeByte s"
  "memory (updatePage p f s) = memory s"
  "processHeap (updatePage p f s) = processHeap s"
  by (simp_all add: updatePage_def split: option.split)

lemma updatePage_pages:
  "pages (updatePage p f s) q = (if q = p then map_option f (pages s p) else pages s q)"
  by (simp add: updatePage_def split: option.split)

lemma recordUsedBytes_fields [simp]:
  "m_memoryManager (recordUsedBytes s) = m_memoryManager s"
  "m_firstPage (recordUsedBytes s) = m_firstPage s"
  "m_lastPage (recordUsedBytes s) = m_lastPage s"
  "m_nextFreeByte (recordUsedBytes s) = m_nextFreeByte s"
  "m_lastFreeByte (recordUsedBytes s) = m_lastFreeByte s"
  "memory (recordUsedBytes s) = memory s"
  "processHeap (recordUsedBytes s) = processHeap s"
  by (simp_all add: recordUsedBytes_def)

lemma linkNewPage_fields [simp]:
  "m_memoryManager (linkNewPage p n sz s) = m_memoryManager s"
  "m_lastPage (linkNewPage p n sz s) = p"
  "m_nextFreeByte (linkNewPage p n sz s) = m_contents p + sz"
  "m_lastFreeByte (linkNewPage p n sz s) = p + n"
  "memory (linkNewPage p n sz s) = memory s"
  "processHeap (linkNewPage p n sz s) = processHeap s"
  "m_firstPage (linkNewPage p n sz s) = (if m_lastPage s = 0 then p else m_firstPage s)"
  by (simp_all add: linkNewPage_def Let_def)

lemma linkNewPage_new:
  "\<exists>pd. pages (linkNewPage p n sz s) p = Some pd \<and> m_pageBytes pd = n \<and>
        m_previous pd = m_lastPage s \<and> m_usedBytes pd = 0"
  by (simp add: linkNewPage_def Let_def updatePage_pages)


lemma stampBlock_fields [simp]:
  "m_memoryManager (stampBlock e b n s) = m_memoryManager s"
  "m_firstPage (stampBlock e b n s) = m_firstPage s"
  "m_lastPage (stampBlock e b n s) = m_lastPage s"
  "m_nextFreeByte (stampBlock e b n s) = m_nextFreeByte s"
  "m_lastFreeByte (stampBlock e b n s) = m_lastFreeByte s"
  "pages (stampBlock e b n s) = pages s"
  "processHeap (stampBlock e b n s) = processHeap s"
  by (simp_all add: stampBlock_def)

text \<open>
  Lines 125 to 131 compare after the addition; this is the same test, read before it.
\<close>

lemma bump_eq:
  "bump e sz s =
     (if m_nextFreeByte s + sz \<le> m_lastFreeByte s
      then (Inr (m_nextFreeByte s), s\<lparr>m_nextFreeByte := m_nextFreeByte s + sz\<rparr>)
      else allocateNewPage e sz True (s\<lparr>m_nextFreeByte := m_nextFreeByte s + sz\<rparr>))"
  by (auto simp add: bump_def Let_def)

text \<open>Page growth, called as alloc.h calls it: after the cursor has been advanced.\<close>

lemma grow_eq:
  "allocateNewPage e sz c (s\<lparr>m_nextFreeByte := m_nextFreeByte s + sz\<rparr>) =
     (let p = allocateHostMemory e (newPageSize e sz)
      in if p = 0 then (if c then Inl NOMEM else Inr 0, recordUsedBytes s)
         else (Inr (m_contents p), linkNewPage p (newPageSize e sz) sz (recordUsedBytes s)))"
  by (simp add: allocateNewPage_def Let_def)

text \<open>Every way through \<open>allocateMemory\<close>.\<close>

lemma allocateMemory_eq:
  "allocateMemory e size0 s =
     (let sz = roundUp size0 sizeof_size_t; p = allocateHostMemory e (newPageSize e sz) in
      if \<not> assertsHold e size0 s then (Inl AssertionFailed, s)
      else if faultFires e then (Inl NOMEM, s)
      else if m_nextFreeByte s + sz \<le> m_lastFreeByte s
      then (Inr (m_nextFreeByte s),
            stampBlock e (m_nextFreeByte s) sz (s\<lparr>m_nextFreeByte := m_nextFreeByte s + sz\<rparr>))
      else if p = 0 then (Inl NOMEM, recordUsedBytes s)
      else (Inr (m_contents p),
            stampBlock e (m_contents p) sz
              (linkNewPage p (newPageSize e sz) sz (recordUsedBytes s))))"
  by (simp add: allocateMemory_def injectFault_eq bump_eq grow_eq Let_def)

lemma roundUp_0: "roundUp 0 sizeof_size_t = 0"
  by (simp add: roundUp_def sizeof_size_t_def)

text \<open>
  Where the sum does not wrap around, \<open>roundUp\<close> is the least multiple of 8 that is not
  below the size.
\<close>

lemma roundUp_exact:
  assumes "unat sz + 7 < 2 ^ 64"
  shows "unat (roundUp sz sizeof_size_t) = (unat sz + 7) div 8 * 8"
proof -
  have a: "unat (sz + 7) = unat sz + 7"
    using unat_plus_no_wrap [of sz 7] assms by simp
  have d: "unat ((sz + 7) div 8) = (unat sz + 7) div 8"
    by (simp add: unat_div a)
  have "(unat sz + 7) div 8 * 8 \<le> unat sz + 7" by simp
  with assms have "(unat sz + 7) div 8 * 8 < 2 ^ 64" by linarith
  then have "unat ((sz + 7) div 8 * 8) = (unat sz + 7) div 8 * 8"
    using d by (simp add: unat_word_ariths)
  then show ?thesis by (simp add: roundUp_def sizeof_size_t_def)
qed

lemma roundUp_bounds:
  assumes "unat sz + 7 < 2 ^ 64"
  shows "unat sz \<le> unat (roundUp sz sizeof_size_t) \<and>
         unat (roundUp sz sizeof_size_t) < unat sz + 8"
  using roundUp_exact [OF assms] by presburger

lemma stampBlock_0: "stampBlock e b 0 s = s"
  by (simp add: stampBlock_def memset_def)

subsection \<open>Alignment\<close>

lemma isAligned_dvd: "isAligned p \<longleftrightarrow> 8 dvd unat p"
  by (simp add: isAligned_def sizeof_size_t_def dvd_eq_mod_eq_0)

lemma isAligned_add: "isAligned a \<Longrightarrow> isAligned b \<Longrightarrow> isAligned (a + b)"
proof -
  assume a: "isAligned a" and b: "isAligned b"
  have "(8::nat) dvd 2 ^ 64" by simp
  moreover have "8 dvd unat a + unat b" using a b by (simp add: isAligned_dvd)
  ultimately have "8 dvd (unat a + unat b) mod 2 ^ 64"
    by (simp add: dvd_mod)
  then show ?thesis by (simp add: isAligned_dvd unat_word_ariths)
qed

lemma isAligned_roundUp: "isAligned (roundUp sz sizeof_size_t)"
proof -
  have "(8::nat) dvd 2 ^ 64" by simp
  then have "8 dvd (unat ((sz + 7) div 8) * 8) mod 2 ^ 64"
    by (simp add: dvd_mod)
  then show ?thesis
    by (simp add: isAligned_dvd roundUp_def sizeof_size_t_def unat_word_ariths)
qed

lemma isAligned_contents: "isAligned p \<Longrightarrow> isAligned (m_contents p)"
  unfolding m_contents_def
  by (rule isAligned_add)
     (simp_all add: isAligned_dvd sizeof_PageDescriptor_def sizeof_size_t_def)

text \<open>
  The cursor is a multiple of the pointer width in a newly constructed arena, and stays
  one through any sequence of requests, served or failed, as long as the backing store
  returns pages at such addresses.
\<close>

lemma new_arena_aligned: "isAligned (m_nextFreeByte (ArenaAllocator_new mm))"
  by (simp add: isAligned_def ArenaAllocator_new_def)

lemma allocateMemory_cursor_aligned:
  assumes "isAligned (m_nextFreeByte s)"
    and "isAligned (allocateHostMemory e (newPageSize e (roundUp size0 sizeof_size_t)))"
  shows "isAligned (m_nextFreeByte (snd (allocateMemory e size0 s)))"
  using assms
  by (auto simp add: allocateMemory_eq Let_def isAligned_add isAligned_roundUp
      isAligned_contents)

lemma allocateAll_cursor_aligned:
  assumes "\<And>e size0 n. (e, size0) \<in> set rs \<Longrightarrow> isAligned (allocateHostMemory e n)"
    and "isAligned (m_nextFreeByte s)"
  shows "isAligned (m_nextFreeByte (allocateAll rs s))"
  using assms
proof (induction rs arbitrary: s)
  case Nil
  then show ?case by simp
next
  case (Cons r rs)
  obtain e size0 where r: "r = (e, size0)" by (cases r)
  have "(e, size0) \<in> set (r # rs)" by (simp add: r)
  then have "isAligned (allocateHostMemory e n)" for n
    by (rule Cons.prems(1))
  then have "isAligned (m_nextFreeByte (snd (allocateMemory e size0 s)))"
    using Cons.prems(2) by (rule allocateMemory_cursor_aligned [rotated])
  moreover have "isAligned (allocateHostMemory e' n)" if "(e', k) \<in> set rs" for e' k n
    using that Cons.prems(1) [of e' k n] by simp
  ultimately show ?case
    using Cons.IH by (simp add: r)
qed

subsection \<open>Concrete runs\<close>

lemma run_first_page:
  "allocateMemory releaseBuild 8 (ArenaAllocator_new 0x100) = (Inr 0x10020, onePage)"
  by (simp add: run_defs)

lemma run_fast_16:
  "allocateMemory releaseBuild 16 onePage =
     (Inr 0x10028, onePage\<lparr>m_nextFreeByte := 0x10038\<rparr>)"
  by (simp add: run_defs)

lemma run_fast_13:
  "allocateMemory releaseBuild 13 (onePage\<lparr>m_nextFreeByte := 0x10038\<rparr>) =
     (Inr 0x10038, onePage\<lparr>m_nextFreeByte := 0x10048\<rparr>)"
  by (simp add: run_defs)

subsection \<open>The fast path and the slow path\<close>

text \<open>
  What a served request does, where the addition of line 126 does not wrap around the
  address space. With \<open>sz\<close> the size rounded up to the pointer width, the request is
  served from the window exactly when the cursor plus \<open>sz\<close>, as numbers, does not exceed
  the limit: then the block is the old cursor, the cursor has advanced by \<open>sz\<close>, and the
  limit, the chain's ends and the page store are as before. Otherwise the page grew: the
  backing store gave a page \<open>p\<close>, \<open>p\<close> is the active page, linked behind the old one, the
  block is the start of its contents, the cursor stands \<open>sz\<close> bytes after that and the
  limit at the end of the storage obtained.
\<close>

lemma served_or_grown_without_wrap:
  assumes "allocateMemory e size0 s = (Inr block, s')"
    and "unat (m_nextFreeByte s) + unat (roundUp size0 sizeof_size_t) < 2 ^ 64"
  shows "let sz = roundUp size0 sizeof_size_t;
             p = allocateHostMemory e (newPageSize e sz)
         in if unat (m_nextFreeByte s) + unat sz \<le> unat (m_lastFreeByte s)
            then block = m_nextFreeByte s \<and>
                 unat (m_nextFreeByte s') = unat (m_nextFreeByte s) + unat sz \<and>
                 m_lastFreeByte s' = m_lastFreeByte s \<and>
                 m_lastPage s' = m_lastPage s \<and>
                 m_firstPage s' = m_firstPage s \<and>
                 pages s' = pages s
            else p \<noteq> 0 \<and> m_lastPage s' = p \<and>
                 block = m_contents p \<and>
                 m_nextFreeByte s' = m_contents p + sz \<and>
                 m_lastFreeByte s' = p + newPageSize e sz \<and>
                 (\<exists>pd. pages s' p = Some pd \<and> m_pageBytes pd = newPageSize e sz \<and>
                       m_previous pd = m_lastPage s)"
proof -
  let ?sz = "roundUp size0 sizeof_size_t"
  have u: "unat (m_nextFreeByte s + ?sz) = unat (m_nextFreeByte s) + unat ?sz"
    using assms(2) by (rule unat_plus_no_wrap)
  have t: "m_nextFreeByte s + ?sz \<le> m_lastFreeByte s \<longleftrightarrow>
           unat (m_nextFreeByte s) + unat ?sz \<le> unat (m_lastFreeByte s)"
    by (simp add: word_le_nat_alt u)
  show ?thesis
    using assms(1) u
      linkNewPage_new [of "allocateHostMemory e (newPageSize e ?sz)"
        "newPageSize e ?sz" ?sz "recordUsedBytes s"]
    by (auto simp add: allocateMemory_eq Let_def t split: if_splits)
qed

text \<open>
  C1. That a request is served from the current window exactly when the cursor plus
  the rounded size does not exceed the limit, and goes to page growth otherwise, fails
  where the addition of line 126 wraps around. On the arena \<open>onePage\<close> (cursor
  \<open>0x10028\<close>, limit \<open>0x20000\<close>) a release build is asked for \<open>2^64 - 48\<close> bytes, which
  is its own rounded size. The cursor plus that size is far beyond the limit, and the
  backing store has a page to give; yet the sum wraps to \<open>0xFFF8\<close>, the test of line 128
  does not send the call to page growth, and the call returns the old cursor \<open>0x10028\<close>
  as the block. The active page and the page store are as before, and the cursor has
  gone back by 48 bytes instead of forward by the size.
\<close>

theorem fast_path_taken_on_wrap:
  "roundUp 0xFFFFFFFFFFFFFFD0 sizeof_size_t = 0xFFFFFFFFFFFFFFD0 \<and>
   unat (m_lastFreeByte onePage)
     < unat (m_nextFreeByte onePage) + unat (roundUp 0xFFFFFFFFFFFFFFD0 sizeof_size_t) \<and>
   allocateHostMemory releaseBuild
     (newPageSize releaseBuild (roundUp 0xFFFFFFFFFFFFFFD0 sizeof_size_t)) = 0x10000 \<and>
   fst (allocateMemory releaseBuild 0xFFFFFFFFFFFFFFD0 onePage) = Inr (m_nextFreeByte onePage) \<and>
   m_lastPage (snd (allocateMemory releaseBuild 0xFFFFFFFFFFFFFFD0 onePage))
     = m_lastPage onePage \<and>
   pages (snd (allocateMemory releaseBuild 0xFFFFFFFFFFFFFFD0 onePage)) = pages onePage \<and>
   m_lastFreeByte (snd (allocateMemory releaseBuild 0xFFFFFFFFFFFFFFD0 onePage))
     = m_lastFreeByte onePage \<and>
   m_nextFreeByte onePage = 0x10028 \<and>
   m_nextFreeByte (snd (allocateMemory releaseBuild 0xFFFFFFFFFFFFFFD0 onePage)) = 0xFFF8"
proof -
  have r: "roundUp 0xFFFFFFFFFFFFFFD0 sizeof_size_t = 0xFFFFFFFFFFFFFFD0"
    by (simp add: roundUp_def sizeof_size_t_def)
  have n: "unat (m_lastFreeByte onePage)
             < unat (m_nextFreeByte onePage) + unat (0xFFFFFFFFFFFFFFD0 :: size_t)"
    by (simp add: onePage_def)
  have h: "allocateHostMemory releaseBuild (newPageSize releaseBuild 0xFFFFFFFFFFFFFFD0)
             = 0x10000"
    by (simp add: releaseBuild_def)
  have a: "allocateMemory releaseBuild 0xFFFFFFFFFFFFFFD0 onePage =
             (Inr 0x10028, onePage\<lparr>m_nextFreeByte := 0xFFF8\<rparr>)"
    by (simp add: run_defs)
  have c: "m_nextFreeByte onePage = 0x10028" by (simp add: onePage_def)
  from r n h a c show ?thesis by simp
qed

subsection \<open>Alignment and contiguity\<close>



text \<open>
  C6. Two consecutive calls that are both served from the window: the second block
  begins where the first one, rounded up to the pointer width, ends.
\<close>

theorem fast_path_contiguity:
  assumes "allocateMemory e1 size1 s = (Inr addr1, s1)"
    and "allocateMemory e2 size2 s1 = (Inr addr2, s2)"
    and "m_nextFreeByte s + roundUp size1 sizeof_size_t \<le> m_lastFreeByte s"
    and "m_nextFreeByte s1 + roundUp size2 sizeof_size_t \<le> m_lastFreeByte s1"
  shows "addr2 = addr1 + roundUp size1 sizeof_size_t"
  using assms by (auto simp add: allocateMemory_eq Let_def split: if_splits)

theorem fast_path_contiguity_witness:
  "allocateMemory releaseBuild 16 onePage = (Inr 0x10028, onePage\<lparr>m_nextFreeByte := 0x10038\<rparr>) \<and>
   allocateMemory releaseBuild 13 (onePage\<lparr>m_nextFreeByte := 0x10038\<rparr>) =
     (Inr 0x10038, onePage\<lparr>m_nextFreeByte := 0x10048\<rparr>) \<and>
   m_nextFreeByte onePage + roundUp 16 sizeof_size_t \<le> m_lastFreeByte onePage \<and>
   m_nextFreeByte (onePage\<lparr>m_nextFreeByte := 0x10038\<rparr>) + roundUp 13 sizeof_size_t
     \<le> m_lastFreeByte (onePage\<lparr>m_nextFreeByte := 0x10038\<rparr>) \<and>
   (0x10038 :: ptr) = 0x10028 + roundUp 16 sizeof_size_t"
proof -
  have f1: "m_nextFreeByte onePage + roundUp 16 sizeof_size_t \<le> m_lastFreeByte onePage"
    by (simp add: run_defs)
  have f2: "m_nextFreeByte (onePage\<lparr>m_nextFreeByte := 0x10038\<rparr>) + roundUp 13 sizeof_size_t
              \<le> m_lastFreeByte (onePage\<lparr>m_nextFreeByte := 0x10038\<rparr>)"
    by (simp add: run_defs)
  show ?thesis
    using fast_path_contiguity [OF run_fast_16 run_fast_13 f1 f2] run_fast_16 run_fast_13 f1 f2
    by simp
qed

subsection \<open>The diagnostic build\<close>

text \<open>
  C5. In a diagnostic build with fault injection configured, a request that meets the
  assertions depends on the one-byte probe of the process heap. If the probe fails,
  \<open>allocateMemory\<close> reports the out-of-memory condition and leaves the state as it was,
  whatever room the window has. If the probe succeeds, the call does what it does with no
  fault injection configured, and the live blocks of the process heap are those of
  before: the probe block has been freed.
\<close>

theorem fault_injection_probe:
  assumes "DEBUG e" and "ShouldInjectFault e \<noteq> 0" and "assertsHold e size0 s"
  shows "if ClrAllocInProcessHeap e 1 = 0
         then allocateMemory e size0 s = (Inl NOMEM, s)
         else allocateMemory e size0 s =
                allocateMemory (e\<lparr>ShouldInjectFault := 0\<rparr>) size0 s \<and>
              processHeap (snd (allocateMemory e size0 s)) = processHeap s"
  using assms
  by (simp add: allocateMemory_eq Let_def faultFires_def assertsHold_def stampBlock_def
      newPageSize_def)

text \<open>
  The failing probe on an arena whose window has 65496 bytes free for a request of 16,
  and the succeeding probe on the same arena.
\<close>

theorem fault_injection_probe_witness:
  "DEBUG (debugBuild\<lparr>ClrAllocInProcessHeap := (\<lambda>_. 0)\<rparr>) \<and>
   ShouldInjectFault (debugBuild\<lparr>ClrAllocInProcessHeap := (\<lambda>_. 0)\<rparr>) \<noteq> 0 \<and>
   assertsHold (debugBuild\<lparr>ClrAllocInProcessHeap := (\<lambda>_. 0)\<rparr>) 16 onePage \<and>
   m_nextFreeByte onePage + roundUp 16 sizeof_size_t \<le> m_lastFreeByte onePage \<and>
   allocateMemory (debugBuild\<lparr>ClrAllocInProcessHeap := (\<lambda>_. 0)\<rparr>) 16 onePage =
     (Inl NOMEM, onePage) \<and>
   ClrAllocInProcessHeap debugBuild 1 = 0x500 \<and>
   fst (allocateMemory debugBuild 16 onePage) = Inr 0x10028 \<and>
   processHeap (snd (allocateMemory debugBuild 16 onePage)) = []"
proof -
  have d: "DEBUG (debugBuild\<lparr>ClrAllocInProcessHeap := (\<lambda>_. 0)\<rparr>)" "DEBUG debugBuild"
    by (simp_all add: debugBuild_def)
  have i: "ShouldInjectFault (debugBuild\<lparr>ClrAllocInProcessHeap := (\<lambda>_. 0)\<rparr>) \<noteq> 0"
    "ShouldInjectFault debugBuild \<noteq> 0"
    by (simp_all add: debugBuild_def)
  have a: "assertsHold (debugBuild\<lparr>ClrAllocInProcessHeap := (\<lambda>_. 0)\<rparr>) 16 onePage"
    "assertsHold debugBuild 16 onePage"
    by (simp_all add: run_defs)
  have r: "fst (allocateMemory (debugBuild\<lparr>ShouldInjectFault := 0\<rparr>) 16 onePage) = Inr 0x10028"
    by (simp add: run_defs)
  show ?thesis
    using fault_injection_probe [OF d(1) i(1) a(1)] fault_injection_probe [OF d(2) i(2) a(2)]
      d i a r
    by (simp add: run_defs)
qed

text \<open>
  C8. In a diagnostic build every byte of a block that \<open>allocateMemory\<close> returns, over
  the whole rounded size, holds the pattern \<open>UninitializedWord<char>(nullptr)\<close> when the
  call returns.
\<close>

theorem block_is_stamped:
  assumes "DEBUG e"
    and "allocateMemory e size0 s = (Inr block, s')"
    and "i < roundUp size0 sizeof_size_t"
  shows "memory s' (block + i) = UninitializedWord e"
  using assms
  by (auto simp add: allocateMemory_eq Let_def stampBlock_def memset_def split: if_splits)

lemma run_debug_13:
  "fst (allocateMemory debugBuild 13 onePage) = Inr 0x10028"
  by (simp add: run_defs)

text \<open>The last byte of the 16 that a request of 13 consumes, and the byte after it.\<close>

theorem block_is_stamped_witness:
  "DEBUG debugBuild \<and>
   fst (allocateMemory debugBuild 13 onePage) = Inr 0x10028 \<and>
   (15 :: size_t) < roundUp 13 sizeof_size_t \<and>
   memory (snd (allocateMemory debugBuild 13 onePage)) (0x10028 + 15) = 0xDD \<and>
   memory (snd (allocateMemory debugBuild 13 onePage)) (0x10028 + 16) = 0"
proof -
  have d: "DEBUG debugBuild" by (simp add: debugBuild_def)
  have r: "allocateMemory debugBuild 13 onePage =
             (Inr 0x10028, snd (allocateMemory debugBuild 13 onePage))"
    using run_debug_13 by (metis prod.collapse)
  have n: "(15 :: size_t) < roundUp 13 sizeof_size_t"
    by (simp add: roundUp_def sizeof_size_t_def)
  have after: "memory (snd (allocateMemory debugBuild 13 onePage)) (0x10028 + 16) = 0"
    by (simp add: run_defs memset_def)
  show ?thesis
    using block_is_stamped [OF d r n] d run_debug_13 n after
    by (simp add: debugBuild_def)
qed

subsection \<open>A request of size 0\<close>

text \<open>
  C10. Where the assertions are not active and no injected fault fires, a request of
  size 0 on an arena whose cursor is not beyond its limit rounds to 0, returns the
  cursor and leaves the whole state as it was; a second such call returns the same
  address.
\<close>

theorem allocate_zero:
  assumes "\<not> assertsActive e" and "\<not> faultFires e"
    and "m_nextFreeByte s \<le> m_lastFreeByte s"
  shows "roundUp 0 sizeof_size_t = 0 \<and>
         allocateMemory e 0 s = (Inr (m_nextFreeByte s), s) \<and>
         allocateMemory e 0 (snd (allocateMemory e 0 s)) = (Inr (m_nextFreeByte s), s)"
  using assms
  by (simp add: allocateMemory_eq Let_def roundUp_0 stampBlock_0 assertsHold_def)

theorem allocate_zero_witness:
  "\<not> assertsActive releaseBuild \<and> \<not> faultFires releaseBuild \<and>
   m_nextFreeByte onePage \<le> m_lastFreeByte onePage \<and>
   allocateMemory releaseBuild 0 onePage = (Inr 0x10028, onePage) \<and>
   allocateMemory releaseBuild 0 (snd (allocateMemory releaseBuild 0 onePage)) =
     (Inr 0x10028, onePage)"
proof -
  have a: "\<not> assertsActive releaseBuild" by (simp add: releaseBuild_def)
  have f: "\<not> faultFires releaseBuild" by (simp add: faultFires_def releaseBuild_def)
  have w: "m_nextFreeByte onePage \<le> m_lastFreeByte onePage" by (simp add: onePage_def)
  have c: "m_nextFreeByte onePage = 0x10028" by (simp add: onePage_def)
  show ?thesis
    using allocate_zero [OF a f w] a f w c by simp
qed

subsection \<open>A failed request\<close>

lemma recordUsedBytes_pages:
  "pages (recordUsedBytes s) p =
     (if p = m_lastPage s \<and> m_lastPage s \<noteq> 0
      then map_option (\<lambda>pd. pd\<lparr>m_usedBytes := m_nextFreeByte s - m_contents (m_lastPage s)\<rparr>)
             (pages s p)
      else pages s p)"
  by (simp add: recordUsedBytes_def updatePage_pages)

lemma recordUsedBytes_links:
  "map_option pageLinks (pages (recordUsedBytes s) p) = map_option pageLinks (pages s p)"
  by (cases "pages s p") (auto simp add: recordUsedBytes_pages pageLinks_def)

lemma recordUsedBytes_idem: "recordUsedBytes (recordUsedBytes s) = recordUsedBytes s"
proof (cases "m_lastPage s \<noteq> 0 \<and> pages s (m_lastPage s) \<noteq> None")
  case True
  then show ?thesis
    by (auto simp add: recordUsedBytes_def updatePage_def)
next
  case False
  then show ?thesis
    by (auto simp add: recordUsedBytes_def updatePage_def)
qed

lemma sumPages_cong:
  assumes "\<And>q. map_option f (h q) = map_option f (h' q)"
    and "\<And>q. map_option m_next (h q) = map_option m_next (h' q)"
  shows "sumPages f h n p = sumPages f h' n p"
proof (induction n arbitrary: p)
  case 0
  show ?case by simp
next
  case (Suc n)
  show ?case
  proof (cases "h p")
    case None
    with assms(1) [of p] show ?thesis by simp
  next
    case (Some pd)
    with assms(1) [of p] obtain pd' where h': "h' p = Some pd'" and f: "f pd' = f pd"
      by (cases "h' p") auto
    from assms(2) [of p] Some h' have "m_next pd' = m_next pd" by simp
    with Some h' f Suc.IH show ?thesis by simp
  qed
qed

lemma recordUsedBytes_allocated:
  "getTotalBytesAllocated n (recordUsedBytes s) = getTotalBytesAllocated n s"
proof -
  have b: "map_option m_pageBytes (pages (recordUsedBytes s) q) = map_option m_pageBytes (pages s q)"
    for q
    by (cases "pages s q") (auto simp add: recordUsedBytes_pages)
  have n: "map_option m_next (pages (recordUsedBytes s) q) = map_option m_next (pages s q)"
    for q
    by (cases "pages s q") (auto simp add: recordUsedBytes_pages)
  show ?thesis
    unfolding getTotalBytesAllocated_def
    using sumPages_cong [of m_pageBytes "pages (recordUsedBytes s)" "pages s", OF b n]
    by simp
qed

lemma recordUsedBytes_used:
  "getTotalBytesUsed n (recordUsedBytes s) = getTotalBytesUsed n s"
  by (simp add: getTotalBytesUsed_def recordUsedBytes_idem)

lemma recordUsedBytes_window:
  "windowInLastPage (recordUsedBytes s) = windowInLastPage s"
  by (cases "pages s (m_lastPage s)")
     (auto simp add: windowInLastPage_def recordUsedBytes_pages)

lemma allocateMemory_NOMEM:
  assumes "allocateMemory e size0 s = (Inl NOMEM, s')"
  shows "s' = s \<or> s' = recordUsedBytes s"
  using assms by (auto simp add: allocateMemory_eq Let_def split: if_splits)

text \<open>
  C2. A request that ends in the out-of-memory condition (the injected fault fires, or
  the backing store has no page to give) leaves the arena as it was: the five fields of
  the object are unchanged, every page has the links and the capacity it had and every
  page but the active one is untouched, both accounting totals are what they were, the
  window invariant holds exactly if it held, and the memory and the process heap are
  unchanged. When the injected fault is what failed, the state is the same altogether.
  After a failed growth the one thing written is the \<open>m_usedBytes\<close> of the active page,
  which records the bytes used so far.
\<close>

theorem failed_request_keeps_arena:
  assumes "allocateMemory e size0 s = (Inl NOMEM, s')"
  shows "m_memoryManager s' = m_memoryManager s \<and>
         m_firstPage s' = m_firstPage s \<and>
         m_lastPage s' = m_lastPage s \<and>
         m_nextFreeByte s' = m_nextFreeByte s \<and>
         m_lastFreeByte s' = m_lastFreeByte s \<and>
         (\<forall>p. map_option pageLinks (pages s' p) = map_option pageLinks (pages s p)) \<and>
         (\<forall>p. p = m_lastPage s \<or> pages s' p = pages s p) \<and>
         (\<forall>n. getTotalBytesAllocated n s' = getTotalBytesAllocated n s) \<and>
         (\<forall>n. getTotalBytesUsed n s' = getTotalBytesUsed n s) \<and>
         windowInLastPage s' = windowInLastPage s \<and>
         memory s' = memory s \<and>
         processHeap s' = processHeap s \<and>
         (if faultFires e then s' = s else s' = recordUsedBytes s)"
proof -
  have f: "if faultFires e then s' = s else s' = recordUsedBytes s"
    using assms by (auto simp add: allocateMemory_eq Let_def split: if_splits)
  from allocateMemory_NOMEM [OF assms] show ?thesis
  proof
    assume "s' = s"
    with f show ?thesis by simp
  next
    assume r: "s' = recordUsedBytes s"
    have "\<forall>p. p = m_lastPage s \<or> pages s' p = pages s p"
      by (simp add: r recordUsedBytes_pages)
    with f r show ?thesis
      by (simp add: recordUsedBytes_links recordUsedBytes_allocated recordUsedBytes_used
          recordUsedBytes_window)
  qed
qed

lemma run_growth_fails:
  "allocateMemory (releaseBuild\<lparr>allocateHostMemory := (\<lambda>_. 0)\<rparr>) 0x20000 onePage =
     (Inl NOMEM, onePage\<lparr>pages := [0x10000 \<mapsto> \<lparr>m_next = 0, m_previous = 0,
                                  m_pageBytes = 0x10000, m_usedBytes = 8\<rparr>]\<rparr>)"
  by (simp add: run_defs)

text \<open>
  A request of 131072 bytes on the one-page arena, with a backing store that has
  nothing to give.
\<close>

theorem failed_request_keeps_arena_witness:
  "allocateMemory (releaseBuild\<lparr>allocateHostMemory := (\<lambda>_. 0)\<rparr>) 0x20000 onePage =
     (Inl NOMEM, onePage\<lparr>pages := [0x10000 \<mapsto> \<lparr>m_next = 0, m_previous = 0,
                                  m_pageBytes = 0x10000, m_usedBytes = 8\<rparr>]\<rparr>) \<and>
   m_nextFreeByte (snd (allocateMemory (releaseBuild\<lparr>allocateHostMemory := (\<lambda>_. 0)\<rparr>)
      0x20000 onePage)) = 0x10028 \<and>
   m_lastFreeByte (snd (allocateMemory (releaseBuild\<lparr>allocateHostMemory := (\<lambda>_. 0)\<rparr>)
      0x20000 onePage)) = 0x20000 \<and>
   getTotalBytesAllocated 1 (snd (allocateMemory
      (releaseBuild\<lparr>allocateHostMemory := (\<lambda>_. 0)\<rparr>) 0x20000 onePage)) = Some 0x10000 \<and>
   getTotalBytesUsed 1 (snd (allocateMemory
      (releaseBuild\<lparr>allocateHostMemory := (\<lambda>_. 0)\<rparr>) 0x20000 onePage)) = Some 8 \<and>
   windowInLastPage (snd (allocateMemory
      (releaseBuild\<lparr>allocateHostMemory := (\<lambda>_. 0)\<rparr>) 0x20000 onePage))"
proof -
  have a: "getTotalBytesAllocated 1 onePage = Some 0x10000"
    by (simp add: getTotalBytesAllocated_def onePage_def)
  have u: "getTotalBytesUsed 1 onePage = Some 8"
    by (simp add: getTotalBytesUsed_def run_defs)
  have w: "windowInLastPage onePage"
    by (simp add: windowInLastPage_def onePage_def sizeof_PageDescriptor_def sizeof_size_t_def)
  have c: "m_nextFreeByte onePage = 0x10028" "m_lastFreeByte onePage = 0x20000"
    by (simp_all add: onePage_def)
  show ?thesis
    using failed_request_keeps_arena [OF run_growth_fails] run_growth_fails a u w c
    by simp
qed

subsection \<open>The size of a new page\<close>








subsection \<open>The window invariant\<close>

text \<open>
  A constructed arena has the invariant, a failed request keeps it
  (\<open>recordUsedBytes_window\<close>), and page growth establishes it when the storage obtained
  lies inside the address space and the request plus the header is a \<open>size_t\<close>.
\<close>

lemma new_arena_window: "windowInLastPage (ArenaAllocator_new mm)"
  by (simp add: windowInLastPage_def ArenaAllocator_new_def)

lemma stampBlock_window: "windowInLastPage (stampBlock e b n s) = windowInLastPage s"
  by (simp add: windowInLastPage_def split: option.split)

lemma linkNewPage_window:
  assumes "unat p + unat n < 2 ^ 64"
    and "unat sz + unat sizeof_PageDescriptor \<le> unat n"
  shows "windowInLastPage (linkNewPage p n sz s)"
proof -
  obtain pd where pd: "pages (linkNewPage p n sz s) p = Some pd" "m_pageBytes pd = n"
    using linkNewPage_new [of p n sz s] by blast
  have h: "unat p + unat sizeof_PageDescriptor < 2 ^ 64"
    using assms by linarith
  have c: "unat (m_contents p) = unat p + unat sizeof_PageDescriptor"
    unfolding m_contents_def using h by (rule unat_plus_no_wrap)
  have "unat (m_contents p) + unat sz < 2 ^ 64"
    using assms c by linarith
  then have cur: "unat (m_contents p + sz) = unat p + unat sizeof_PageDescriptor + unat sz"
    using c by (simp add: unat_plus_no_wrap)
  have lim: "unat (p + n) = unat p + unat n"
    using assms(1) by (rule unat_plus_no_wrap)
  show ?thesis
    using pd cur lim assms(2) by (simp add: windowInLastPage_def)
qed

lemma window_after_growth:
  assumes "allocateMemory e size0 s = (Inr block, s')"
    and "\<not> m_nextFreeByte s + roundUp size0 sizeof_size_t \<le> m_lastFreeByte s"
    and "unat (allocateHostMemory e (newPageSize e (roundUp size0 sizeof_size_t)))
           + unat (newPageSize e (roundUp size0 sizeof_size_t)) < 2 ^ 64"
    and "unat (roundUp size0 sizeof_size_t) + unat sizeof_PageDescriptor < 2 ^ 64"
  shows "windowInLastPage s'"
proof -
  let ?sz = "roundUp size0 sizeof_size_t"
  let ?n = "newPageSize e ?sz"
  let ?p = "allocateHostMemory e ?n"
  have s': "s' = stampBlock e (m_contents ?p) ?sz (linkNewPage ?p ?n ?sz (recordUsedBytes s))"
    using assms(1,2) by (auto simp add: allocateMemory_eq Let_def split: if_splits)
  have "?sz + sizeof_PageDescriptor \<le> ?n"
    by (simp add: newPageSize_def)
  then have "unat (?sz + sizeof_PageDescriptor) \<le> unat ?n"
    by (simp add: word_le_nat_alt)
  then have "unat ?sz + unat sizeof_PageDescriptor \<le> unat ?n"
    using unat_plus_no_wrap [OF assms(4)] by simp
  with assms(3) show ?thesis
    by (simp add: s' stampBlock_window linkNewPage_window)
qed

text \<open>
  The fast path keeps the window inside the active page as long as the addition of
  line 126 does not wrap around the address space.
\<close>

lemma window_kept_without_wrap:
  assumes "allocateMemory e size0 s = (Inr block, s')"
    and "m_nextFreeByte s + roundUp size0 sizeof_size_t \<le> m_lastFreeByte s"
    and "unat (m_nextFreeByte s) + unat (roundUp size0 sizeof_size_t) < 2 ^ 64"
    and "windowInLastPage s" and "m_nextFreeByte s \<noteq> 0"
  shows "windowInLastPage s'"
proof -
  let ?sz = "roundUp size0 sizeof_size_t"
  have s': "s' = stampBlock e (m_nextFreeByte s) ?sz (s\<lparr>m_nextFreeByte := m_nextFreeByte s + ?sz\<rparr>)"
    using assms(1,2) by (auto simp add: allocateMemory_eq Let_def split: if_splits)
  have u: "unat (m_nextFreeByte s + ?sz) = unat (m_nextFreeByte s) + unat ?sz"
    using assms(3) by (rule unat_plus_no_wrap)
  have le: "unat (m_nextFreeByte s + ?sz) \<le> unat (m_lastFreeByte s)"
    using assms(2) by (simp add: word_le_nat_alt)
  show ?thesis
    using assms(4,5) u le
    by (auto simp add: s' windowInLastPage_def split: option.splits if_splits)
qed

text \<open>
  C7. That the cursor and the limit, when non-null, lie inside the storage of the last
  page (the invariant of lines 46 to 48) does not survive every request. The arena
  \<open>onePage\<close> (one page of 65536 bytes at \<open>0x10000\<close>, contents from \<open>0x10020\<close>, cursor
  \<open>0x10028\<close>, limit \<open>0x20000\<close>) satisfies it. A request of \<open>2^64 - 48\<close> bytes is
  already a multiple of 8; line 126 adds it to the cursor, the sum wraps around to
  \<open>0xFFF8\<close>, the test of line 128 finds that below the limit, and the call returns the
  block \<open>0x10028\<close> on the fast path. The cursor is then non-null and below the page.
\<close>

theorem window_broken_by_wrap:
  "windowInLastPage onePage \<and>
   roundUp 0xFFFFFFFFFFFFFFD0 sizeof_size_t = 0xFFFFFFFFFFFFFFD0 \<and>
   allocateMemory releaseBuild 0xFFFFFFFFFFFFFFD0 onePage =
     (Inr 0x10028, onePage\<lparr>m_nextFreeByte := 0xFFF8\<rparr>) \<and>
   \<not> windowInLastPage (onePage\<lparr>m_nextFreeByte := 0xFFF8\<rparr>) \<and>
   unat (m_nextFreeByte (onePage\<lparr>m_nextFreeByte := 0xFFF8\<rparr>)) < unat (m_lastPage onePage)"
proof -
  have w: "windowInLastPage onePage"
    by (simp add: windowInLastPage_def onePage_def sizeof_PageDescriptor_def sizeof_size_t_def)
  have r: "roundUp 0xFFFFFFFFFFFFFFD0 sizeof_size_t = 0xFFFFFFFFFFFFFFD0"
    by (simp add: roundUp_def sizeof_size_t_def)
  have a: "allocateMemory releaseBuild 0xFFFFFFFFFFFFFFD0 onePage =
             (Inr 0x10028, onePage\<lparr>m_nextFreeByte := 0xFFF8\<rparr>)"
    by (simp add: run_defs)
  have n: "\<not> windowInLastPage (onePage\<lparr>m_nextFreeByte := 0xFFF8\<rparr>)"
    by (simp add: windowInLastPage_def onePage_def sizeof_PageDescriptor_def sizeof_size_t_def)
  have b: "unat (m_nextFreeByte (onePage\<lparr>m_nextFreeByte := 0xFFF8\<rparr>)) < unat (m_lastPage onePage)"
    by (simp add: onePage_def)
  from w r a n b show ?thesis by simp
qed

subsection \<open>The pointer returned\<close>

lemma contents_not_null:
  assumes "p \<noteq> 0" and "unat p + unat sizeof_PageDescriptor < 2 ^ 64"
  shows "m_contents p \<noteq> 0"
proof
  assume "m_contents p = 0"
  then have "unat (p + sizeof_PageDescriptor) = 0"
    by (simp add: m_contents_def)
  with unat_plus_no_wrap [OF assms(2)] have "unat p = 0" by simp
  with assms(1) show False by (simp add: unat_eq_0)
qed

text \<open>
  C9, as amended. \<open>allocateMemory\<close> asks for page growth with \<open>canThrow = true\<close> on
  every slow-path call: a block that it returns is either the cursor of the fast path or
  the block that \<open>allocateNewPage\<close> returned when called with \<open>true\<close>, and such a call
  never returns null. So a call that returns normally returns a non-null pointer,
  provided that the rounded size is not 0, that the cursor is null only together with the
  limit (an arena with no page), and that the header of the page obtained lies below the
  top of the address space.
\<close>

theorem allocateMemory_not_null:
  assumes "allocateMemory e size0 s = (Inr block, s')"
    and "roundUp size0 sizeof_size_t \<noteq> 0"
    and "m_nextFreeByte s \<noteq> 0 \<or> m_lastFreeByte s = 0"
    and "unat (allocateHostMemory e (newPageSize e (roundUp size0 sizeof_size_t)))
           + unat sizeof_PageDescriptor < 2 ^ 64"
  shows "block \<noteq> 0 \<and>
         (m_nextFreeByte s + roundUp size0 sizeof_size_t \<le> m_lastFreeByte s \<and>
            block = m_nextFreeByte s \<or>
          fst (allocateNewPage e (roundUp size0 sizeof_size_t) True
                 (s\<lparr>m_nextFreeByte := m_nextFreeByte s + roundUp size0 sizeof_size_t\<rparr>))
            = Inr block) \<and>
         (\<forall>st. fst (allocateNewPage e (roundUp size0 sizeof_size_t) True st) \<noteq> Inr 0)"
proof -
  let ?sz = "roundUp size0 sizeof_size_t"
  let ?p = "allocateHostMemory e (newPageSize e ?sz)"
  have c: "?p \<noteq> 0 \<Longrightarrow> m_contents ?p \<noteq> 0"
    using assms(4) by (rule contents_not_null [rotated])
  have never: "\<forall>st. fst (allocateNewPage e ?sz True st) \<noteq> Inr 0"
    using c by (simp add: allocateNewPage_def Let_def)
  show ?thesis
  proof (cases "m_nextFreeByte s + ?sz \<le> m_lastFreeByte s")
    case True
    then have b: "block = m_nextFreeByte s"
      using assms(1) by (auto simp add: allocateMemory_eq Let_def split: if_splits)
    have "m_nextFreeByte s \<noteq> 0"
    proof
      assume z: "m_nextFreeByte s = 0"
      with assms(3) have "m_lastFreeByte s = 0" by simp
      with True z have "?sz = 0" by simp
      with assms(2) show False by simp
    qed
    with b True never show ?thesis by simp
  next
    case False
    then have g: "?p \<noteq> 0" "block = m_contents ?p"
      using assms(1) by (auto simp add: allocateMemory_eq Let_def split: if_splits)
    with c have "block \<noteq> 0" by simp
    moreover have "fst (allocateNewPage e ?sz True
                     (s\<lparr>m_nextFreeByte := m_nextFreeByte s + ?sz\<rparr>)) = Inr block"
      using g by (simp add: grow_eq Let_def)
    ultimately show ?thesis using never by simp
  qed
qed

theorem allocateMemory_not_null_witness:
  "allocateMemory releaseBuild 8 (ArenaAllocator_new 0x100) = (Inr 0x10020, onePage) \<and>
   roundUp 8 sizeof_size_t \<noteq> 0 \<and>
   m_lastFreeByte (ArenaAllocator_new 0x100) = 0 \<and>
   unat (allocateHostMemory releaseBuild (newPageSize releaseBuild (roundUp 8 sizeof_size_t)))
     + unat sizeof_PageDescriptor < 2 ^ 64 \<and>
   (0x10020 :: ptr) \<noteq> 0 \<and>
   fst (allocateNewPage releaseBuild (roundUp 8 sizeof_size_t) True
         ((ArenaAllocator_new 0x100)\<lparr>m_nextFreeByte := 8\<rparr>)) = Inr 0x10020"
proof -
  have r: "roundUp 8 sizeof_size_t \<noteq> 0"
    by (simp add: roundUp_def sizeof_size_t_def)
  have l: "m_lastFreeByte (ArenaAllocator_new 0x100) = 0"
    by (simp add: ArenaAllocator_new_def)
  then have l': "m_nextFreeByte (ArenaAllocator_new 0x100) \<noteq> 0 \<or>
                 m_lastFreeByte (ArenaAllocator_new 0x100) = 0"
    by simp
  have h: "unat (allocateHostMemory releaseBuild
                   (newPageSize releaseBuild (roundUp 8 sizeof_size_t)))
             + unat sizeof_PageDescriptor < 2 ^ 64"
    by (simp add: run_defs)
  have g: "fst (allocateNewPage releaseBuild (roundUp 8 sizeof_size_t) True
             ((ArenaAllocator_new 0x100)\<lparr>m_nextFreeByte := 8\<rparr>)) = Inr 0x10020"
    by (simp add: run_defs)
  show ?thesis
    using allocateMemory_not_null [OF run_first_page r l' h] run_first_page r l h g
    by simp
qed

text \<open>
  C9 as the claim states it fails where the size rounds to 0 on an arena that has no
  page: the cursor is null, the test of line 128 does not send the call to page growth,
  and the call returns the null cursor. That is so for a request of \<open>2^64 - 1\<close> bytes, in
  a diagnostic build whose assertions hold, and for a request of 0 bytes in a release
  build.
\<close>

theorem allocateMemory_not_null_counterexample:
  "assertsHold debugBuild 0xFFFFFFFFFFFFFFFF (ArenaAllocator_new 0x100) \<and>
   roundUp 0xFFFFFFFFFFFFFFFF sizeof_size_t = 0 \<and>
   fst (allocateMemory debugBuild 0xFFFFFFFFFFFFFFFF (ArenaAllocator_new 0x100)) = Inr 0 \<and>
   fst (allocateMemory releaseBuild 0xFFFFFFFFFFFFFFFF (ArenaAllocator_new 0x100)) = Inr 0 \<and>
   fst (allocateMemory releaseBuild 0 (ArenaAllocator_new 0x100)) = Inr 0"
  by (simp add: run_defs)

end
